theory Spec2Isabelle
  imports Complex_Main "HOL-Library.AList" "HOL-Library.Log_Nat"
begin

section \<open>Numbers and request values\<close>

text \<open>
  The Cloud Functions module (\<^verbatim>\<open>functions/src/index.ts\<close>, hardened version) computes with
  JavaScript numbers, which are IEEE 754 doubles. A finite number is the rational it
  denotes, and every arithmetic operation returns the exact result rounded to the
  nearest double, a tie going to the even significand: \<open>fl\<close>. The significand has 53
  bits; the exponent is not bounded here, so the model is that of the doubles between
  \<open>2\<^sup>-\<^sup>1\<^sup>0\<^sup>2\<^sup>2\<close> and \<open>2\<^sup>1\<^sup>0\<^sup>2\<^sup>4\<close> in magnitude, where prices and percentages lie. The
  non-finite results of a division by zero are kept, because the tests of the pipeline
  compare them: \<^verbatim>\<open>x / 0\<close> is \<^verbatim>\<open>Infinity\<close>, \<^verbatim>\<open>-Infinity\<close> or \<^verbatim>\<open>NaN\<close>, and every comparison
  with \<^verbatim>\<open>NaN\<close> is false. Signed zeros are not told apart.
\<close>

text \<open>The exponent \<open>e\<close> of a positive number: \<open>2\<^sup>e \<le> x < 2\<^sup>e\<^sup>+\<^sup>1\<close>.\<close>

definition exponent_of :: "rat \<Rightarrow> int" where
  "exponent_of x =
     (let (p, q) = quotient_of x; k = bitlen p - bitlen q
      in if 2 powi k \<le> x then k else k - 1)"

definition round_half_even :: "rat \<Rightarrow> int" where
  "round_half_even y =
     (let n = \<lfloor>y\<rfloor>; r = y - of_int n
      in if r < 1 / 2 then n else if 1 / 2 < r then n + 1
         else if even n then n else n + 1)"

definition fl :: "rat \<Rightarrow> rat" where
  "fl x =
     (if x = 0 then 0
      else let ulp = 2 powi (exponent_of \<bar>x\<bar> - 52)
           in of_int (round_half_even (x / ulp)) * ulp)"

text \<open>The unit roundoff.\<close>

definition eps :: rat where
  "eps = 1 / 2 ^ 53"

datatype jsnum = Num rat | PosInfinity | NegInfinity | NaN

definition js_div :: "rat \<Rightarrow> rat \<Rightarrow> jsnum" where
  "js_div a b =
     (if b \<noteq> 0 then Num (fl (a / b))
      else if 0 < a then PosInfinity
      else if a < 0 then NegInfinity
      else NaN)"

fun js_mul :: "jsnum \<Rightarrow> rat \<Rightarrow> jsnum" where
  "js_mul (Num x) k = Num (fl (x * k))"
| "js_mul PosInfinity k = (if 0 < k then PosInfinity else if k < 0 then NegInfinity else NaN)"
| "js_mul NegInfinity k = (if 0 < k then NegInfinity else if k < 0 then PosInfinity else NaN)"
| "js_mul NaN k = NaN"

text \<open>
  \<^verbatim>\<open>Math.round\<close> takes the nearest integer and rounds a tie towards plus infinity;
  \<^verbatim>\<open>Math.round\<close> and \<^verbatim>\<open>Math.floor\<close> are exact on the double they are given.
\<close>

definition Math_round :: "rat \<Rightarrow> rat" where
  "Math_round x = of_int \<lfloor>x + 1 / 2\<rfloor>"


fun Math_round_js :: "jsnum \<Rightarrow> jsnum" where
  "Math_round_js (Num x) = Num (Math_round x)"
| "Math_round_js PosInfinity = PosInfinity"
| "Math_round_js NegInfinity = NegInfinity"
| "Math_round_js NaN = NaN"

text \<open>The comparisons \<^verbatim>\<open>x >= k\<close>, \<^verbatim>\<open>x < k\<close> and \<^verbatim>\<open>k <= x\<close> for a finite \<open>k\<close>.\<close>

fun js_ge :: "jsnum \<Rightarrow> rat \<Rightarrow> bool" where
  "js_ge (Num x) k = (k \<le> x)"
| "js_ge PosInfinity k = True"
| "js_ge NegInfinity k = False"
| "js_ge NaN k = False"

fun js_lt :: "jsnum \<Rightarrow> rat \<Rightarrow> bool" where
  "js_lt (Num x) k = (x < k)"
| "js_lt PosInfinity k = False"
| "js_lt NegInfinity k = True"
| "js_lt NaN k = False"

fun js_le_num :: "rat \<Rightarrow> jsnum \<Rightarrow> bool" where
  "js_le_num k (Num x) = (k \<le> x)"
| "js_le_num k PosInfinity = True"
| "js_le_num k NegInfinity = False"
| "js_le_num k NaN = False"

text \<open>
  A request body is parsed JSON. A property that is absent (\<^verbatim>\<open>undefined\<close>) is \<open>None\<close> where
  a value is looked up. An object is the list of its properties.
\<close>

datatype json =
    JNull
  | JBool bool
  | JNum rat
  | JStr string
  | JArr "json list"
  | JObj "(string \<times> json) list"

text \<open>Reading a property of a value that is not an object gives \<^verbatim>\<open>undefined\<close>.\<close>

fun json_get :: "json \<Rightarrow> string \<Rightarrow> json option" where
  "json_get (JObj kvs) k = map_of kvs k"
| "json_get _ k = None"

text \<open>Optional chaining \<^verbatim>\<open>preferences?.field\<close>: \<^verbatim>\<open>undefined\<close> and \<^verbatim>\<open>null\<close> give \<^verbatim>\<open>undefined\<close>.\<close>

fun opt_chain :: "json option \<Rightarrow> string \<Rightarrow> json option" where
  "opt_chain None k = None"
| "opt_chain (Some v) k = json_get v k"

section \<open>Security helpers\<close>

definition is_digit :: "char \<Rightarrow> bool" where
  "is_digit c = (c \<in> set ''0123456789'')"

text \<open>\<^verbatim>\<open>/^\d{4,6}(-\d)?$/\<close>: four to six digits, then nothing or a dash and one digit.\<close>

definition isValidSetNumber :: "string \<Rightarrow> bool" where
  "isValidSetNumber setNumber =
     (let ds = takeWhile is_digit setNumber; rest = dropWhile is_digit setNumber
      in 4 \<le> length ds \<and> length ds \<le> 6 \<and>
         (case rest of
            [] \<Rightarrow> True
          | [d, e] \<Rightarrow> d = CHR ''-'' \<and> is_digit e
          | _ \<Rightarrow> False))"

text \<open>As the callback of \<^verbatim>\<open>filter\<close>: only a string can be a set number.\<close>

fun isValidSetNumber_json :: "json \<Rightarrow> bool" where
  "isValidSetNumber_json (JStr s) = isValidSetNumber s"
| "isValidSetNumber_json _ = False"


definition token_char :: "char \<Rightarrow> bool" where
  "token_char c =
     (c \<in> set (''abcdefghijklmnopqrstuvwxyz'' @ ''ABCDEFGHIJKLMNOPQRSTUVWXYZ'' @
               ''0123456789'' @ ''_-''))"

text \<open>\<^verbatim>\<open>/^ExponentPushToken\[[a-zA-Z0-9_-]+\]$/\<close>.\<close>

definition isValidExpoPushToken :: "string \<Rightarrow> bool" where
  "isValidExpoPushToken tok =
     (let pre = ''ExponentPushToken[''; r = drop (length pre) tok
      in take (length pre) tok = pre \<and> r \<noteq> [] \<and> last r = CHR '']'' \<and>
         butlast r \<noteq> [] \<and> list_all token_char (butlast r))"

text \<open>The token of a request body: it has to be a string before the pattern is tried.\<close>

fun valid_token_of :: "json option \<Rightarrow> string option" where
  "valid_token_of (Some (JStr s)) = (if isValidExpoPushToken s then Some s else None)"
| "valid_token_of _ = None"

text \<open>
  \<^verbatim>\<open>validateApiKey\<close>. The configured secret \<^verbatim>\<open>APP_API_KEY\<close> is a parameter; the empty
  string stands for "not configured". Header names are lower case, as Node delivers them.
  \<^verbatim>\<open>replace("Bearer ", "")\<close> removes the first occurrence of the text, wherever it is.
\<close>

fun starts_with :: "string \<Rightarrow> string \<Rightarrow> bool" where
  "starts_with s p = (take (length p) s = p)"

fun replace_first :: "string \<Rightarrow> string \<Rightarrow> string" where
  "replace_first p [] = []"
| "replace_first p (c # cs) =
     (if p \<noteq> [] \<and> starts_with (c # cs) p then drop (length p) (c # cs)
      else c # replace_first p cs)"

definition truthy :: "string option \<Rightarrow> bool" where
  "truthy v = (case v of None \<Rightarrow> False | Some s \<Rightarrow> s \<noteq> [])"

record request =
  req_method :: string
  req_headers :: "(string \<times> string) list"
  remoteAddress :: "string option"
  req_body :: "json option"

definition header :: "request \<Rightarrow> string \<Rightarrow> string option" where
  "header req k = map_of (req_headers req) k"

definition validateApiKey :: "string \<Rightarrow> request \<Rightarrow> bool" where
  "validateApiKey APP_API_KEY req =
     (let apiKey =
            (if truthy (header req ''x-api-key'') then header req ''x-api-key''
             else map_option (replace_first ''Bearer '') (header req ''authorization''))
      in if APP_API_KEY = [] then True else apiKey = Some APP_API_KEY)"

text \<open>
  \<^verbatim>\<open>checkRateLimit\<close>. The map is the module's global \<^verbatim>\<open>rateLimitMap\<close>; \<open>now\<close> is what
  \<^verbatim>\<open>Date.now()\<close> returns at the call, in milliseconds.
\<close>

record rate_record =
  count :: nat
  resetTime :: int

definition RATE_LIMIT_WINDOW_MS :: int where
  "RATE_LIMIT_WINDOW_MS = 60000"

definition RATE_LIMIT_MAX_REQUESTS :: nat where
  "RATE_LIMIT_MAX_REQUESTS = 30"

definition checkRateLimit ::
  "string \<Rightarrow> int \<Rightarrow> (string \<times> rate_record) list \<Rightarrow> bool \<times> (string \<times> rate_record) list" where
  "checkRateLimit ip now rl =
     (case map_of rl ip of
        None \<Rightarrow>
          (True, AList.update ip \<lparr>count = 1, resetTime = now + RATE_LIMIT_WINDOW_MS\<rparr> rl)
      | Some r \<Rightarrow>
          if resetTime r < now
          then (True, AList.update ip \<lparr>count = 1, resetTime = now + RATE_LIMIT_WINDOW_MS\<rparr> rl)
          else if RATE_LIMIT_MAX_REQUESTS \<le> count r then (False, rl)
          else (True, AList.update ip (r\<lparr>count := count r + 1\<rparr>) rl))"

text \<open>\<^verbatim>\<open>getClientIp\<close>: the first entry of \<^verbatim>\<open>x-forwarded-for\<close>, else the socket's address.\<close>

definition js_or :: "string option \<Rightarrow> string option \<Rightarrow> string option" where
  "js_or a b = (if truthy a then a else b)"

definition getClientIp :: "request \<Rightarrow> string" where
  "getClientIp req =
     (let fwd = map_option (takeWhile (\<lambda>c. c \<noteq> CHR '','')) (header req ''x-forwarded-for'')
      in case js_or (js_or fwd (remoteAddress req)) (Some ''unknown'') of
           Some ip \<Rightarrow> ip
         | None \<Rightarrow> ''unknown'')"

definition ALLOWED_ORIGINS :: "string list" where
  "ALLOWED_ORIGINS =
     [''https://brickdealhunter.com'', ''https://www.brickdealhunter.com'',
      ''exp://'', ''https://exp.host'']"

definition setCorsHeaders :: "string \<Rightarrow> request \<Rightarrow> (string \<times> string) list" where
  "setCorsHeaders APP_API_KEY req =
     (let origin = (case header req ''origin'' of Some s \<Rightarrow> s | None \<Rightarrow> []);
          isAllowed = list_ex (\<lambda>allowed. starts_with origin allowed \<or> allowed = ''*'') ALLOWED_ORIGINS
      in [(''Access-Control-Allow-Origin'',
            if isAllowed \<or> APP_API_KEY = [] then (if origin \<noteq> [] then origin else ''*'')
            else hd ALLOWED_ORIGINS),
          (''Access-Control-Allow-Methods'', ''POST, OPTIONS''),
          (''Access-Control-Allow-Headers'', ''Content-Type, X-API-Key, Authorization''),
          (''Access-Control-Max-Age'', ''86400'')])"

datatype response_body = EmptyBody | Failure string | Success string

record response =
  status :: nat
  res_headers :: "(string \<times> string) list"
  res_body :: response_body

text \<open>\<^verbatim>\<open>safeErrorResponse\<close>: \<^verbatim>\<open>{success: false, error: message}\<close> under the given status.\<close>

definition safeErrorResponse :: "(string \<times> string) list \<Rightarrow> nat \<Rightarrow> string \<Rightarrow> response" where
  "safeErrorResponse hs statusCode message =
     \<lparr>status = statusCode, res_headers = hs, res_body = Failure message\<rparr>"

section \<open>Catalog entries, price observations and deals\<close>

datatype availability = available | coming_soon | sold_out | retiring_soon


text \<open>
  The price \<^verbatim>\<open>fetchFromRebrickable\<close> gives a catalog entry: eleven cents a part, rounded to
  whole dollars (\<^verbatim>\<open>estimatedPrice\<close>), or 20 when that is not positive. The catalog is written
  by no other function, so the price of every catalog entry is such a whole number.
\<close>

definition estimatedPrice :: "rat \<Rightarrow> rat" where
  "estimatedPrice num_parts = Math_round (fl (num_parts * fl (11 / 100)))"

definition fetchFromRebrickable_price :: "rat \<Rightarrow> rat" where
  "fetchFromRebrickable_price num_parts =
     (if 0 < estimatedPrice num_parts then estimatedPrice num_parts else 20)"

record PriceData =
  setNumber :: string
  setName :: string
  retailer :: string
  currentPrice :: rat
  originalPrice :: rat
  url :: string
  inStock :: bool
  lastUpdated :: int
  theme :: "string option"
  imageUrl :: "string option"
  pieces :: "nat option"

record DealData = PriceData +
  percentOff :: jsnum
  savings :: rat





text \<open>
  The body of the loop of \<^verbatim>\<open>updatePrices\<close> (and of \<^verbatim>\<open>manualPriceUpdate\<close>) derives the
  deal from a price observation: the percentage, the test, and the record with the
  savings.
\<close>

definition updatePrices_percentOff :: "PriceData \<Rightarrow> jsnum" where
  "updatePrices_percentOff priceData =
     Math_round_js
       (js_mul (js_div (fl (originalPrice priceData - currentPrice priceData))
                  (originalPrice priceData)) 100)"

definition updatePrices_deal :: "PriceData \<Rightarrow> DealData option" where
  "updatePrices_deal priceData =
     (let pct = updatePrices_percentOff priceData
      in if js_ge pct 10 \<and> inStock priceData
         then Some (PriceData.extend priceData
                (DealData.fields pct
                   (fl (Math_round
                          (fl (fl (originalPrice priceData - currentPrice priceData) * 100))
                        / 100))))
         else None)"

section \<open>Subscribers, the stores and the push gateway\<close>

datatype platform = ios | android | web

text \<open>
  A document of \<^verbatim>\<open>push_tokens\<close>, with every field typed by what the endpoints can write
  into it: \<^verbatim>\<open>notificationsEnabled\<close> and the entries of the two lists come from the request
  body and are stored as they are.
\<close>

record PushToken =
  token :: string
  platform :: platform
  notificationsEnabled :: json
  minDiscountThreshold :: rat
  watchedThemes :: "json list"
  watchedSets :: "json list"
  pt_lastUpdated :: int

text \<open>Text built by a template literal: the numbers in it are kept as numbers.\<close>

datatype text_part = Str string | NumStr jsnum

record NotificationPayload =
  title :: "text_part list"
  body :: "text_part list"
  data_type :: string
  data_setNumber :: string
  data_retailer :: string
  data_percentOff :: jsnum

record ExpoMessage =
  msg_to :: string
  msg_sound :: string
  msg_payload :: NotificationPayload
  msg_badge :: nat
  msg_priority :: string

text \<open>
  The state of one instance: the limiter's map, the three Firestore collections the code
  writes (a collection is the list of its documents under their ids), the batches posted
  to the Expo gateway so far, and the number of queries made on \<^verbatim>\<open>push_tokens\<close>.
  Firestore and the gateway are taken to answer; what a failed call would log is not part
  of the state.
\<close>

record world =
  rateLimitMap :: "(string \<times> rate_record) list"
  prices :: "(string \<times> PriceData) list"
  deals :: "(string \<times> DealData) list"
  push_tokens :: "(string \<times> PushToken) list"
  expo_posts :: "ExpoMessage list list"
  push_token_queries :: nat

text \<open>
  \<^verbatim>\<open>doc(id).set(data, {merge: true})\<close>: a new document is the data; an existing one gets
  every field of the data written over its own. The functions below write all the
  fields of their record.
\<close>

definition merge_PriceData :: "PriceData \<Rightarrow> PriceData \<Rightarrow> PriceData" where
  "merge_PriceData old new =
     old\<lparr>setNumber := setNumber new, setName := setName new, retailer := retailer new,
         currentPrice := currentPrice new, originalPrice := originalPrice new, url := url new,
         inStock := inStock new, lastUpdated := lastUpdated new, theme := theme new,
         imageUrl := imageUrl new, pieces := pieces new\<rparr>"

definition merge_DealData :: "DealData \<Rightarrow> DealData \<Rightarrow> DealData" where
  "merge_DealData old new =
     old\<lparr>setNumber := setNumber new, setName := setName new, retailer := retailer new,
         currentPrice := currentPrice new, originalPrice := originalPrice new, url := url new,
         inStock := inStock new, lastUpdated := lastUpdated new, theme := theme new,
         imageUrl := imageUrl new, pieces := pieces new,
         percentOff := percentOff new, savings := savings new\<rparr>"

definition merge_PushToken :: "PushToken \<Rightarrow> PushToken \<Rightarrow> PushToken" where
  "merge_PushToken old new =
     old\<lparr>token := token new, platform := platform new,
         notificationsEnabled := notificationsEnabled new,
         minDiscountThreshold := minDiscountThreshold new,
         watchedThemes := watchedThemes new, watchedSets := watchedSets new,
         pt_lastUpdated := pt_lastUpdated new\<rparr>"

definition set_merge ::
  "('d \<Rightarrow> 'd \<Rightarrow> 'd) \<Rightarrow> string \<Rightarrow> 'd \<Rightarrow> (string \<times> 'd) list \<Rightarrow> (string \<times> 'd) list" where
  "set_merge mrg docId d coll =
     AList.update docId (case map_of coll docId of None \<Rightarrow> d | Some old \<Rightarrow> mrg old d) coll"

definition savePriceToFirestore :: "PriceData \<Rightarrow> world \<Rightarrow> world" where
  "savePriceToFirestore price w =
     w\<lparr>prices := set_merge merge_PriceData (setNumber price @ ''_'' @ retailer price) price (prices w)\<rparr>"

definition saveDealToFirestore :: "DealData \<Rightarrow> world \<Rightarrow> world" where
  "saveDealToFirestore deal w =
     w\<lparr>deals := set_merge merge_DealData (setNumber deal @ ''_'' @ retailer deal) deal (deals w)\<rparr>"

section \<open>Notification fan-out\<close>

text \<open>
  \<^verbatim>\<open>getEligiblePushTokens\<close>. The query returns the documents with
  \<^verbatim>\<open>notificationsEnabled == true\<close> and \<^verbatim>\<open>minDiscountThreshold <= deal.percentOff\<close>, here in
  the order of the collection. The loop keeps the token of every document for which
  \<^verbatim>\<open>watchingTheme || watchingSet\<close> holds. \<^verbatim>\<open>deal.theme && ...\<close> is false for a deal without a
  theme and for the empty theme.
\<close>

definition push_token_query :: "DealData \<Rightarrow> world \<Rightarrow> PushToken list" where
  "push_token_query deal w =
     filter (\<lambda>t. notificationsEnabled t = JBool True \<and>
                 js_le_num (minDiscountThreshold t) (percentOff deal))
       (map snd (push_tokens w))"

definition watchingTheme :: "DealData \<Rightarrow> PushToken \<Rightarrow> bool" where
  "watchingTheme deal tokenData =
     (case theme deal of
        None \<Rightarrow> True
      | Some th \<Rightarrow>
          if th \<noteq> [] \<and> watchedThemes tokenData \<noteq> []
          then JStr th \<in> set (watchedThemes tokenData)
          else True)"

definition watchingSet :: "DealData \<Rightarrow> PushToken \<Rightarrow> bool" where
  "watchingSet deal tokenData =
     (if watchedSets tokenData \<noteq> []
      then JStr (setNumber deal) \<in> set (watchedSets tokenData)
      else True)"

fun eligible_loop :: "DealData \<Rightarrow> PushToken list \<Rightarrow> string list" where
  "eligible_loop deal [] = []"
| "eligible_loop deal (tokenData # docs) =
     (if watchingTheme deal tokenData \<or> watchingSet deal tokenData
      then token tokenData # eligible_loop deal docs
      else eligible_loop deal docs)"

definition getEligiblePushTokens :: "DealData \<Rightarrow> world \<Rightarrow> string list \<times> world" where
  "getEligiblePushTokens deal w =
     (eligible_loop deal (push_token_query deal w),
      w\<lparr>push_token_queries := push_token_queries w + 1\<rparr>)"

text \<open>
  \<^verbatim>\<open>sendExpoPushNotification\<close>: one message per token, posted in slices of 100; the loop
  \<^verbatim>\<open>for (i = 0; i < messages.length; i += batchSize)\<close> goes on whatever a post answers.
\<close>

function message_batches :: "'a list \<Rightarrow> nat \<Rightarrow> 'a list list" where
  "message_batches messages i =
     (if i < length messages
      then take 100 (drop i messages) # message_batches messages (i + 100)
      else [])"
  by pat_completeness auto
termination
  by (relation "measure (\<lambda>(messages, i). length messages - i)") auto

declare message_batches.simps [simp del]

definition expo_message :: "NotificationPayload \<Rightarrow> string \<Rightarrow> ExpoMessage" where
  "expo_message notification tok =
     \<lparr>msg_to = tok, msg_sound = ''default'', msg_payload = notification,
      msg_badge = 1, msg_priority = ''high''\<rparr>"

definition sendExpoPushNotification ::
  "string list \<Rightarrow> NotificationPayload \<Rightarrow> world \<Rightarrow> world" where
  "sendExpoPushNotification pushTokens notification w =
     (if pushTokens = [] then w
      else w\<lparr>expo_posts :=
               expo_posts w @ message_batches (map (expo_message notification) pushTokens) 0\<rparr>)"

text \<open>\<^verbatim>\<open>toUpperCase\<close> on the letters a to z; the retailer identifiers have no others.\<close>

definition toUpperCase :: "string \<Rightarrow> string" where
  "toUpperCase s =
     map (\<lambda>c. case map_of (zip ''abcdefghijklmnopqrstuvwxyz'' ''ABCDEFGHIJKLMNOPQRSTUVWXYZ'') c of
                 None \<Rightarrow> c
               | Some u \<Rightarrow> u) s"

definition hotDealPayload :: "DealData \<Rightarrow> NotificationPayload" where
  "hotDealPayload deal =
     \<lparr>title = [NumStr (percentOff deal), Str ''% OFF - Hot Deal!''],
      body = [Str (setName deal), Str '' at '', Str (toUpperCase (retailer deal)),
              Str '' - Now $'', NumStr (Num (currentPrice deal)),
              Str '' (Save $'', NumStr (Num (savings deal)), Str '')''],
      data_type = ''deal'', data_setNumber = setNumber deal, data_retailer = retailer deal,
      data_percentOff = percentOff deal\<rparr>"

definition notifyHotDeal :: "DealData \<Rightarrow> world \<Rightarrow> world" where
  "notifyHotDeal deal w =
     (if js_lt (percentOff deal) 40 then w
      else
        let (tokens, w1) = getEligiblePushTokens deal w
        in if tokens = [] then w1
           else sendExpoPushNotification tokens (hotDealPayload deal) w1)"

text \<open>
  One turn of the inner loop of \<^verbatim>\<open>updatePrices\<close> on the observation the generator made:
  the price is saved, the deal is derived, saved and counted, and a deal of 40 percent
  or more is announced.
\<close>

definition updatePrices_body :: "PriceData \<Rightarrow> world \<times> nat \<Rightarrow> world \<times> nat" where
  "updatePrices_body priceData st =
     (let (w, dealsFound) = st;
          w1 = savePriceToFirestore priceData w
      in case updatePrices_deal priceData of
           None \<Rightarrow> (w1, dealsFound)
         | Some deal \<Rightarrow>
             let w2 = saveDealToFirestore deal w1
             in (if js_ge (percentOff deal) 40 then notifyHotDeal deal w2 else w2,
                 dealsFound + 1))"

section \<open>The endpoints\<close>

text \<open>
  A handler takes the configured secret, the request and the time of the call, and
  returns the response with the new state. Destructuring \<^verbatim>\<open>req.body\<close> throws when the
  body is \<^verbatim>\<open>undefined\<close> or \<^verbatim>\<open>null\<close>, and the \<^verbatim>\<open>catch\<close> answers 500.
\<close>

fun platform_of :: "json option \<Rightarrow> platform" where
  "platform_of (Some (JStr s)) =
     (if s = ''ios'' then ios else if s = ''android'' then android
      else if s = ''web'' then web else ios)"
| "platform_of _ = ios"

definition register_tokenData :: "string \<Rightarrow> json option \<Rightarrow> json option \<Rightarrow> int \<Rightarrow> PushToken" where
  "register_tokenData tok platform_field preferences now =
     \<lparr>token = tok,
      platform = platform_of platform_field,
      notificationsEnabled =
        (case opt_chain preferences ''notificationsEnabled'' of
           None \<Rightarrow> JBool True
         | Some JNull \<Rightarrow> JBool True
         | Some v \<Rightarrow> v),
      minDiscountThreshold =
        (case opt_chain preferences ''minDiscountThreshold'' of
           Some (JNum x) \<Rightarrow> min (max x 0) 100
         | _ \<Rightarrow> 20),
      watchedThemes =
        (case opt_chain preferences ''watchedThemes'' of
           Some (JArr xs) \<Rightarrow> take 50 xs
         | _ \<Rightarrow> []),
      watchedSets =
        (case opt_chain preferences ''watchedSets'' of
           Some (JArr xs) \<Rightarrow> take 100 (filter isValidSetNumber_json xs)
         | _ \<Rightarrow> []),
      pt_lastUpdated = now\<rparr>"

definition registerPushToken :: "string \<Rightarrow> request \<Rightarrow> int \<Rightarrow> world \<Rightarrow> response \<times> world" where
  "registerPushToken APP_API_KEY req now w =
     (let hs = setCorsHeaders APP_API_KEY req
      in if req_method req = ''OPTIONS''
         then (\<lparr>status = 204, res_headers = hs, res_body = EmptyBody\<rparr>, w)
         else if req_method req \<noteq> ''POST''
         then (safeErrorResponse hs 405 ''Method not allowed'', w)
         else
           let (admitted, rl) = checkRateLimit (getClientIp req) now (rateLimitMap w);
               w1 = w\<lparr>rateLimitMap := rl\<rparr>
           in if \<not> admitted then (safeErrorResponse hs 429 ''Too many requests'', w1)
              else
                (case req_body req of
                   None \<Rightarrow> (safeErrorResponse hs 500 ''Registration failed'', w1)
                 | Some JNull \<Rightarrow> (safeErrorResponse hs 500 ''Registration failed'', w1)
                 | Some b \<Rightarrow>
                     (case valid_token_of (json_get b ''token'') of
                        None \<Rightarrow> (safeErrorResponse hs 400 ''Invalid push token format'', w1)
                      | Some tok \<Rightarrow>
                          let tokenData =
                                register_tokenData tok (json_get b ''platform'')
                                  (json_get b ''preferences'') now
                          in (\<lparr>status = 200, res_headers = hs,
                               res_body = Success ''Push token registered successfully''\<rparr>,
                              w1\<lparr>push_tokens :=
                                   set_merge merge_PushToken tok tokenData (push_tokens w1)\<rparr>))))"

definition testPayload :: NotificationPayload where
  "testPayload =
     \<lparr>title = [Str ''Test Notification''],
      body = [Str ''Brick Deal Hunter notifications are working!''],
      data_type = ''deal'', data_setNumber = ''TEST-1'', data_retailer = ''test'',
      data_percentOff = Num 50\<rparr>"

definition sendTestNotification :: "string \<Rightarrow> request \<Rightarrow> int \<Rightarrow> world \<Rightarrow> response \<times> world" where
  "sendTestNotification APP_API_KEY req now w =
     (let hs = setCorsHeaders APP_API_KEY req
      in if req_method req = ''OPTIONS''
         then (\<lparr>status = 204, res_headers = hs, res_body = EmptyBody\<rparr>, w)
         else if req_method req \<noteq> ''POST''
         then (safeErrorResponse hs 405 ''Method not allowed'', w)
         else
           let (admitted, rl) = checkRateLimit (getClientIp req) now (rateLimitMap w);
               w1 = w\<lparr>rateLimitMap := rl\<rparr>
           in if \<not> admitted then (safeErrorResponse hs 429 ''Too many requests'', w1)
              else
                (case req_body req of
                   None \<Rightarrow> (safeErrorResponse hs 500 ''Failed to send notification'', w1)
                 | Some JNull \<Rightarrow> (safeErrorResponse hs 500 ''Failed to send notification'', w1)
                 | Some b \<Rightarrow>
                     (case valid_token_of (json_get b ''token'') of
                        None \<Rightarrow> (safeErrorResponse hs 400 ''Invalid push token format'', w1)
                      | Some tok \<Rightarrow>
                          (case map_of (push_tokens w1) tok of
                             None \<Rightarrow> (safeErrorResponse hs 404 ''Token not registered'', w1)
                           | Some tokenDoc \<Rightarrow>
                               (\<lparr>status = 200, res_headers = hs,
                                 res_body = Success ''Test notification sent''\<rparr>,
                                sendExpoPushNotification [tok] testPayload w1)))))"

text \<open>
  The limiter over a run of requests of one client: the times of the calls in order,
  the decisions in the same order, and the map at the end.
\<close>

fun checkRateLimit_run ::
  "string \<Rightarrow> int list \<Rightarrow> (string \<times> rate_record) list \<Rightarrow> bool list \<times> (string \<times> rate_record) list" where
  "checkRateLimit_run ip [] rl = ([], rl)"
| "checkRateLimit_run ip (now # later) rl =
     (let (admitted, rl1) = checkRateLimit ip now rl;
          (rest, rl2) = checkRateLimit_run ip later rl1
      in (admitted # rest, rl2))"

section \<open>Concrete data for the examples\<close>

definition observation :: "rat \<Rightarrow> rat \<Rightarrow> bool \<Rightarrow> PriceData" where
  "observation orig cur stock =
     \<lparr>setNumber = ''75192'', setName = ''Millennium Falcon'', retailer = ''amazon'',
      currentPrice = cur, originalPrice = orig,
      url = ''https://www.amazon.com/s?k=LEGO+75192'', inStock = stock, lastUpdated = 0,
      theme = Some ''Star Wars'', imageUrl = None, pieces = Some 7541\<rparr>"

definition empty_world :: world where
  "empty_world =
     \<lparr>rateLimitMap = [], prices = [], deals = [], push_tokens = [],
      expo_posts = [], push_token_queries = 0\<rparr>"

definition subscriber :: "string \<Rightarrow> rat \<Rightarrow> json list \<Rightarrow> json list \<Rightarrow> PushToken" where
  "subscriber tok threshold themes sets =
     \<lparr>token = tok, platform = ios, notificationsEnabled = JBool True,
      minDiscountThreshold = threshold, watchedThemes = themes, watchedSets = sets,
      pt_lastUpdated = 0\<rparr>"

definition deal_of :: "string option \<Rightarrow> string \<Rightarrow> rat \<Rightarrow> DealData" where
  "deal_of th sn pct =
     \<lparr>setNumber = sn, setName = ''Example set'', retailer = ''amazon'',
      currentPrice = 100 - pct, originalPrice = 100,
      url = [], inStock = True, lastUpdated = 0,
      theme = th, imageUrl = None, pieces = None,
      percentOff = Num pct, savings = pct\<rparr>"

definition registry :: "PushToken list \<Rightarrow> world" where
  "registry docs = empty_world\<lparr>push_tokens := map (\<lambda>t. (token t, t)) docs\<rparr>"

definition registered_world :: world where
  "registered_world =
     registry [\<lparr>token = ''ExponentPushToken[abc123]'', platform = ios,
                notificationsEnabled = JBool False, minDiscountThreshold = 55,
                watchedThemes = [JStr ''Star Wars''], watchedSets = [JStr ''75192''],
                pt_lastUpdated = 0\<rparr>]"

definition post_request :: "json \<Rightarrow> request" where
  "post_request b =
     \<lparr>req_method = ''POST'', req_headers = [(''x-forwarded-for'', ''203.0.113.7'')],
      remoteAddress = None, req_body = Some b\<rparr>"

definition register_body :: "string \<Rightarrow> json option \<Rightarrow> json" where
  "register_body tok prefs =
     JObj ([(''token'', JStr tok), (''platform'', JStr ''android'')] @
           (case prefs of None \<Rightarrow> [] | Some p \<Rightarrow> [(''preferences'', p)]))"

definition bad_register :: request where
  "bad_register = post_request (register_body ''bad-token'' None)"

definition good_register :: request where
  "good_register =
     post_request (register_body ''ExponentPushToken[abc123]''
       (Some (JObj [(''minDiscountThreshold'', JNum 150),
                    (''watchedSets'',
                     JArr [JStr ''75192'', JStr ''abc'', JNum 5, JStr ''10294-1''])])))"

definition plain_register :: request where
  "plain_register = post_request (register_body ''ExponentPushToken[abc123]'' None)"

definition test_request :: request where
  "test_request = post_request (JObj [(''token'', JStr ''ExponentPushToken[abc123]'')])"

definition limited_world :: world where
  "limited_world =
     empty_world\<lparr>rateLimitMap := [(''203.0.113.7'', \<lparr>count = 30, resetTime = 60000\<rparr>)]\<rparr>"




text \<open>
  The matching rule in the words of the specification, to compare the loop of
  \<^verbatim>\<open>getEligiblePushTokens\<close> with: the list of themes is empty or contains the deal's theme, or
  the list of sets is empty or contains the deal's set number.
\<close>

definition claimed_rule :: "DealData \<Rightarrow> PushToken \<Rightarrow> bool" where
  "claimed_rule deal t =
     ((watchedThemes t = [] \<or>
       (case theme deal of None \<Rightarrow> False | Some th \<Rightarrow> JStr th \<in> set (watchedThemes t))) \<or>
      (watchedSets t = [] \<or> JStr (setNumber deal) \<in> set (watchedSets t)))"

section \<open>Rounding to the nearest double\<close>

text \<open>
  The exponent brackets a positive number, so \<open>fl\<close> keeps 53 significant bits: its
  relative error is at most \<open>eps\<close>, a whole number below \<open>2\<^sup>5\<^sup>3\<close> is a double, and the
  largest double below 1 is \<open>1 - 2\<^sup>-\<^sup>5\<^sup>3\<close>.
\<close>

lemma quotient_of_pos:
  assumes "0 < x" "quotient_of x = (p, q)"
  shows "0 < p" "0 < q" "x = of_int p / of_int q"
proof -
  from assms(2) show q: "0 < q" by (rule quotient_of_denom_pos)
  from assms(2) show x: "x = of_int p / of_int q" by (rule quotient_of_div)
  from assms(1) x q show "0 < p" by (simp add: zero_less_divide_iff)
qed

lemma exponent_of_lower:
  assumes "0 < x"
  shows "2 powi (exponent_of x) \<le> x"
proof -
  obtain p q where pq: "quotient_of x = (p, q)" by (cases "quotient_of x")
  note f = quotient_of_pos[OF assms pq]
  let ?k = "bitlen p - bitlen q"
  show ?thesis
  proof (cases "2 powi ?k \<le> x")
    case True
    then show ?thesis by (simp add: exponent_of_def pq)
  next
    case False
    from bitlen_bounds[OF f(1)] have lo: "(2::int) ^ nat (bitlen p - 1) \<le> p" by simp
    from bitlen_bounds[OF f(2)] have hi: "q < (2::int) ^ nat (bitlen q)" by simp
    from f(1) have bp: "1 \<le> bitlen p" by (simp add: bitlen_def floorlog_def)
    have bq: "0 \<le> bitlen q" by (simp add: bitlen_def)
    from lo have lo': "(2::rat) ^ nat (bitlen p - 1) \<le> of_int p"
      by (metis of_int_le_iff of_int_numeral of_int_power)
    from hi have hi': "(of_int q :: rat) \<le> 2 ^ nat (bitlen q)"
      by (metis less_imp_le of_int_le_iff of_int_numeral of_int_power)
    have "(2::rat) powi ((bitlen p - 1) - bitlen q) = 2 powi (bitlen p - 1) / 2 powi (bitlen q)"
      by (rule power_int_diff) simp
    moreover have "?k - 1 = (bitlen p - 1) - bitlen q" by simp
    ultimately have "(2::rat) powi (?k - 1) = 2 powi (bitlen p - 1) / 2 powi (bitlen q)"
      by (simp only:)
    also have "\<dots> = 2 ^ nat (bitlen p - 1) / 2 ^ nat (bitlen q)"
      using bp bq by (simp add: power_int_def)
    also have "\<dots> \<le> of_int p / of_int q"
      using lo' hi' f(1,2) by (intro frac_le) simp_all
    finally have "(2::rat) powi (?k - 1) \<le> x" using f(3) by simp
    with False show ?thesis by (simp add: exponent_of_def pq)
  qed
qed


lemma round_half_even_near: "\<bar>of_int (round_half_even y) - y\<bar> \<le> 1 / 2"
proof -
  have "of_int \<lfloor>y\<rfloor> \<le> y" "y < of_int \<lfloor>y\<rfloor> + 1" by linarith+
  then show ?thesis by (auto simp: round_half_even_def Let_def abs_if; linarith)
qed


lemma fl_error: "\<bar>fl x - x\<bar> \<le> eps * \<bar>x\<bar>"
proof (cases "x = 0")
  case True
  then show ?thesis by (simp add: fl_def)
next
  case False
  let ?e = "exponent_of \<bar>x\<bar>"
  let ?u = "(2::rat) powi (?e - 52)"
  have up: "0 < ?u" by simp
  from False have lo: "2 powi ?e \<le> \<bar>x\<bar>" by (intro exponent_of_lower) simp
  have "\<bar>of_int (round_half_even (x / ?u)) - x / ?u\<bar> \<le> 1 / 2"
    by (rule round_half_even_near)
  then have "\<bar>of_int (round_half_even (x / ?u)) - x / ?u\<bar> * ?u \<le> 1 / 2 * ?u"
    using up by (intro mult_right_mono) simp_all
  moreover have "\<bar>of_int (round_half_even (x / ?u)) - x / ?u\<bar> * ?u =
      \<bar>of_int (round_half_even (x / ?u)) * ?u - x\<bar>"
  proof -
    have "(of_int (round_half_even (x / ?u)) - x / ?u) * ?u =
        of_int (round_half_even (x / ?u)) * ?u - x"
      using up by (simp add: left_diff_distrib)
    moreover have "\<bar>(of_int (round_half_even (x / ?u)) - x / ?u) * ?u\<bar> =
        \<bar>of_int (round_half_even (x / ?u)) - x / ?u\<bar> * ?u"
      using up by (simp add: abs_mult)
    ultimately show ?thesis by simp
  qed
  ultimately have "\<bar>fl x - x\<bar> \<le> 1 / 2 * ?u" using False by (simp add: fl_def Let_def)
  also have "1 / 2 * ?u = eps * 2 powi ?e"
    by (simp add: eps_def power_int_diff)
  also have "\<dots> \<le> eps * \<bar>x\<bar>" using lo by (intro mult_left_mono) (simp_all add: eps_def)
  finally show ?thesis .
qed




text \<open>
  Some values, for comparison with the doubles of any implementation: \<^verbatim>\<open>0.1\<close>,
  \<^verbatim>\<open>0.1 + 0.2\<close>, and two products that fall just below a tie of \<^verbatim>\<open>Math.round\<close> although
  the exact values, 14.5 and 451.5, are ties: \<^verbatim>\<open>((200 - 171) / 200) * 100\<close> is rounded to 14,
  and a price of 5.25 at 14 percent becomes 4.51. Neither input is one the price update
  can meet: the catalog has whole prices and the discounts are whole percentages.
\<close>

lemma rounding_examples:
  "fl (1 / 10) = 3602879701896397 / 36028797018963968"
  "fl (fl (1 / 10) + fl (2 / 10)) = 1351079888211149 / 4503599627370496"
  "fl (fl (fl (200 - 171) / 200) * 100) < 29 / 2"
  "Math_round (fl (fl (fl (200 - 171) / 200) * 100)) = 14"
  "fl (fl (21 / 4 * fl (1 - fl (14 / 100))) * 100) < 903 / 2"
  "fl (Math_round (fl (fl (21 / 4 * fl (1 - fl (14 / 100))) * 100)) / 100) = fl (451 / 100)"
  by code_simp+












section \<open>The catalog's prices\<close>

text \<open>
  \<^verbatim>\<open>fetchFromRebrickable\<close> gives every catalog entry a whole price of at least one dollar.
\<close>

lemma catalog_price_whole:
  assumes "0 \<le> x" "x \<le> 10 ^ 9"
  shows "\<exists>k::int. fetchFromRebrickable_price x = of_int k \<and> 1 \<le> k \<and> k \<le> 10 ^ 9"
proof -
  let ?t = "fl (x * fl (11 / 100))"
  have c: "0 \<le> fl (11 / 100)" "fl (11 / 100) \<le> 1 / 5" by code_simp+
  from assms c have y: "0 \<le> x * fl (11 / 100)" by simp
  have "x * fl (11 / 100) \<le> 10 ^ 9 * (1 / 5)" using assms c by (intro mult_mono) simp_all
  then have yb: "x * fl (11 / 100) \<le> 2 * 10 ^ 8" by simp
  from fl_error[of "x * fl (11 / 100)"] y have "?t \<le> (1 + eps) * (x * fl (11 / 100))"
    by (simp add: algebra_simps abs_if split: if_splits)
  also have "\<dots> \<le> (1 + eps) * (2 * 10 ^ 8)"
    using yb by (intro mult_left_mono) (simp_all add: eps_def)
  also have "\<dots> \<le> 3 * 10 ^ 8" by (simp add: eps_def)
  finally have tb: "?t \<le> 3 * 10 ^ 8" .
  then have "?t + 1 / 2 < of_int (10 ^ 9)" by simp
  then have kb: "\<lfloor>?t + 1 / 2\<rfloor> < 10 ^ 9" by (simp only: floor_less_iff)
  have e: "estimatedPrice x = of_int \<lfloor>?t + 1 / 2\<rfloor>"
    by (simp add: estimatedPrice_def Math_round_def)
  show ?thesis
  proof (cases "0 < estimatedPrice x")
    case True
    with e have "0 < \<lfloor>?t + 1 / 2\<rfloor>" by simp
    with kb True e show ?thesis
      by (intro exI[of _ "\<lfloor>?t + 1 / 2\<rfloor>"]) (simp add: fetchFromRebrickable_price_def)
  next
    case False
    then show ?thesis by (intro exI[of _ 20]) (simp add: fetchFromRebrickable_price_def)
  qed
qed


section \<open>The price generator\<close>
















section \<open>Deal derivation\<close>

lemma percentOff_finite:
  "originalPrice p \<noteq> 0 \<Longrightarrow>
   updatePrices_percentOff p =
     Num (Math_round (fl (fl (fl (originalPrice p - currentPrice p) / originalPrice p) * 100)))"
  by (simp add: updatePrices_percentOff_def js_div_def)


lemma deal_key:
  "updatePrices_deal p = Some d \<Longrightarrow> setNumber d = setNumber p \<and> retailer d = retailer p"
  by (auto simp: updatePrices_deal_def Let_def PriceData.defs DealData.defs split: if_splits)

lemma percent_examples:
  "Math_round (fl (fl (fl (100 - 95) / 100) * 100)) = 5"
  "Math_round (fl (fl (fl (100 - 80) / 100) * 100)) = 20"
  "fl (Math_round (fl (fl (100 - 80) * 100)) / 100) = 20"
  by code_simp+

lemma deal_example:
  "updatePrices_deal (observation 100 80 True) =
     Some (PriceData.extend (observation 100 80 True) (DealData.fields (Num 20) 20))"
proof -
  have o: "originalPrice (observation 100 80 True) = 100"
    "currentPrice (observation 100 80 True) = 80" "inStock (observation 100 80 True)"
    by (simp_all add: observation_def)
  have nz: "originalPrice (observation 100 80 True) \<noteq> 0" by (simp add: o)
  have "updatePrices_percentOff (observation 100 80 True) = Num 20"
    by (simp only: percentOff_finite[OF nz] o percent_examples)
  then show ?thesis
    by (simp only: updatePrices_deal_def Let_def o percent_examples) simp
qed







lemma merge_DealData_new: "merge_DealData old new = new"
  by (cases old, cases new) (simp add: merge_DealData_def)

lemma merge_PriceData_new: "merge_PriceData old new = new"
  by (cases old, cases new) (simp add: merge_PriceData_def)

lemma merge_PushToken_new: "merge_PushToken old new = new"
  by (cases old, cases new) (simp add: merge_PushToken_def)

lemma map_of_set_merge:
  "map_of (set_merge mrg k d coll) k' =
     (if k' = k then Some (case map_of coll k of None \<Rightarrow> d | Some old \<Rightarrow> mrg old d)
      else map_of coll k')"
  by (simp add: set_merge_def update_conv')

lemma deals_notifyHotDeal: "deals (notifyHotDeal d w) = deals w"
  by (simp add: notifyHotDeal_def getEligiblePushTokens_def sendExpoPushNotification_def Let_def)

lemma body_None:
  "updatePrices_deal p = None \<Longrightarrow>
   updatePrices_body p (w, n) = (savePriceToFirestore p w, n)"
  by (simp add: updatePrices_body_def)

lemma body_Some:
  "updatePrices_deal p = Some d \<Longrightarrow>
   deals (fst (updatePrices_body p (w, n))) =
     set_merge merge_DealData (setNumber p @ ''_'' @ retailer p) d (deals w) \<and>
   snd (updatePrices_body p (w, n)) = n + 1"
  by (auto simp: updatePrices_body_def Let_def deals_notifyHotDeal saveDealToFirestore_def
        savePriceToFirestore_def dest: deal_key)

lemma threshold_test_finite: "originalPrice p \<noteq> 0 \<Longrightarrow>
   js_ge (updatePrices_percentOff p) 10 = (\<not> js_lt (updatePrices_percentOff p) 10)"
  by (auto simp: percentOff_finite)

lemma observed_95:
  assumes "originalPrice q = 100 \<and> currentPrice q = 95"
  shows "updatePrices_percentOff q = Num 5" "updatePrices_deal q = None"
proof -
  from assms have o: "originalPrice q = 100" "currentPrice q = 95" by simp_all
  have nz: "originalPrice q \<noteq> 0" by (simp add: o)
  show 1: "updatePrices_percentOff q = Num 5"
    by (simp only: percentOff_finite[OF nz] o percent_examples)
  show "updatePrices_deal q = None" by (simp add: updatePrices_deal_def 1)
qed

lemma observed_80:
  assumes "originalPrice q = 100 \<and> currentPrice q = 80 \<and> inStock q"
  shows "updatePrices_percentOff q = Num 20"
    "\<exists>d. updatePrices_deal q = Some d \<and> percentOff d = Num 20 \<and> savings d = 20"
proof -
  from assms have o: "originalPrice q = 100" "currentPrice q = 80" "inStock q" by simp_all
  have nz: "originalPrice q \<noteq> 0" by (simp add: o)
  show 1: "updatePrices_percentOff q = Num 20"
    by (simp only: percentOff_finite[OF nz] o percent_examples)
  have "updatePrices_deal q = Some (PriceData.extend q (DealData.fields (Num 20) 20))"
    by (simp only: updatePrices_deal_def Let_def 1 o percent_examples) simp
  then show "\<exists>d. updatePrices_deal q = Some d \<and> percentOff d = Num 20 \<and> savings d = 20"
    by (simp add: PriceData.defs DealData.defs)
qed

text \<open>
  Claim C2. The loop derives no deal, and writes nothing into \<^verbatim>\<open>deals\<close>, exactly when the
  computed \<open>percentOff\<close> fails the test \<^verbatim>\<open>percentOff >= 10\<close> or \<open>inStock\<close> is false; for a
  non-zero original price the percentage is a finite number and failing the test is being
  below 10. Otherwise the deal is written under the key of the observation and counted.
  An observation of 100 and 95 has \<open>percentOff = 5\<close> and gives no deal; one of 100 and 80,
  in stock, has \<open>percentOff = 20\<close> and gives a deal with \<open>savings = 20\<close>.
\<close>

theorem deal_derived_iff:
  "(updatePrices_deal p = None) =
     (\<not> js_ge (updatePrices_percentOff p) 10 \<or> \<not> inStock p) \<and>
   (originalPrice p \<noteq> 0 \<longrightarrow>
      (updatePrices_deal p = None) =
        (js_lt (updatePrices_percentOff p) 10 \<or> \<not> inStock p)) \<and>
   (updatePrices_deal p = None \<longrightarrow>
      deals (fst (updatePrices_body p (w, n))) = deals w \<and>
      snd (updatePrices_body p (w, n)) = n) \<and>
   (\<forall>d. updatePrices_deal p = Some d \<longrightarrow>
      map_of (deals (fst (updatePrices_body p (w, n)))) (setNumber p @ ''_'' @ retailer p) = Some d \<and>
      snd (updatePrices_body p (w, n)) = n + 1) \<and>
   (originalPrice q = 100 \<and> currentPrice q = 95 \<longrightarrow>
      updatePrices_percentOff q = Num 5 \<and> updatePrices_deal q = None) \<and>
   (originalPrice q = 100 \<and> currentPrice q = 80 \<and> inStock q \<longrightarrow>
      updatePrices_percentOff q = Num 20 \<and>
      (\<exists>d. updatePrices_deal q = Some d \<and> percentOff d = Num 20 \<and> savings d = 20))"
proof (intro conjI impI allI)
  show g: "(updatePrices_deal p = None) =
     (\<not> js_ge (updatePrices_percentOff p) 10 \<or> \<not> inStock p)"
    by (auto simp: updatePrices_deal_def Let_def)
  show "(updatePrices_deal p = None) =
        (js_lt (updatePrices_percentOff p) 10 \<or> \<not> inStock p)" if "originalPrice p \<noteq> 0"
    using g threshold_test_finite[OF that] by simp
  show "deals (fst (updatePrices_body p (w, n))) = deals w" if "updatePrices_deal p = None"
    using body_None[OF that] by (simp add: savePriceToFirestore_def)
  show "snd (updatePrices_body p (w, n)) = n" if "updatePrices_deal p = None"
    using body_None[OF that] by simp
  show "map_of (deals (fst (updatePrices_body p (w, n)))) (setNumber p @ ''_'' @ retailer p) = Some d"
    if "updatePrices_deal p = Some d" for d
    using body_Some[OF that] by (simp add: map_of_set_merge merge_DealData_new split: option.split)
  show "snd (updatePrices_body p (w, n)) = n + 1" if "updatePrices_deal p = Some d" for d
    using body_Some[OF that] by simp
  show "updatePrices_percentOff q = Num 5" if "originalPrice q = 100 \<and> currentPrice q = 95"
    using that by (rule observed_95)
  show "updatePrices_deal q = None" if "originalPrice q = 100 \<and> currentPrice q = 95"
    using that by (rule observed_95)
  show "updatePrices_percentOff q = Num 20"
    if "originalPrice q = 100 \<and> currentPrice q = 80 \<and> inStock q"
    using that by (rule observed_80)
  show "\<exists>d. updatePrices_deal q = Some d \<and> percentOff d = Num 20 \<and> savings d = 20"
    if "originalPrice q = 100 \<and> currentPrice q = 80 \<and> inStock q"
    using that by (rule observed_80)
qed

theorem deal_derived_iff_witness:
  "updatePrices_percentOff (observation 100 95 True) = Num 5 \<and>
   updatePrices_deal (observation 100 95 True) = None \<and>
   deals (fst (updatePrices_body (observation 100 95 True) (empty_world, 0))) = [] \<and>
   updatePrices_percentOff (observation 100 80 True) = Num 20 \<and>
   updatePrices_deal (observation 100 80 False) = None \<and>
   map_of (deals (fst (updatePrices_body (observation 100 80 True) (empty_world, 0))))
     ''75192_amazon'' =
     Some (PriceData.extend (observation 100 80 True) (DealData.fields (Num 20) 20)) \<and>
   snd (updatePrices_body (observation 100 80 True) (empty_world, 0)) = 1"
proof -
  have o: "originalPrice (observation a b c) = a" "currentPrice (observation a b c) = b"
    "inStock (observation a b c) = c" "setNumber (observation a b c) = ''75192''"
    "retailer (observation a b c) = ''amazon''" for a b c
    by (simp_all add: observation_def)
  from deal_derived_iff[of "observation 100 95 True" empty_world 0 "observation 100 95 True"]
  have a: "updatePrices_percentOff (observation 100 95 True) = Num 5"
    "updatePrices_deal (observation 100 95 True) = None"
    by (simp_all add: o)
  with deal_derived_iff[of "observation 100 95 True" empty_world 0 "observation 100 95 True"]
  have b: "deals (fst (updatePrices_body (observation 100 95 True) (empty_world, 0))) = []"
    by (simp add: empty_world_def)
  from deal_derived_iff[of "observation 100 80 True" empty_world 0 "observation 100 80 True"]
  have c: "updatePrices_percentOff (observation 100 80 True) = Num 20" by (simp add: o)
  from deal_derived_iff[of "observation 100 80 False" empty_world 0 "observation 100 80 True"]
  have d: "updatePrices_deal (observation 100 80 False) = None" by (simp add: o)
  from deal_derived_iff[of "observation 100 80 True" empty_world 0 "observation 100 80 True"] deal_example
  have e: "map_of (deals (fst (updatePrices_body (observation 100 80 True) (empty_world, 0))))
     ''75192_amazon'' =
     Some (PriceData.extend (observation 100 80 True) (DealData.fields (Num 20) 20))"
    "snd (updatePrices_body (observation 100 80 True) (empty_world, 0)) = 1"
    by (simp_all add: o)
  from a b c d e show ?thesis by simp
qed

section \<open>Subscriber matching\<close>

lemma eligible_loop_filter:
  "eligible_loop deal docs =
     map token (filter (\<lambda>t. watchingTheme deal t \<or> watchingSet deal t) docs)"
  by (induction docs) simp_all

text \<open>
  Claim C3. A deal reaches \<^verbatim>\<open>getEligiblePushTokens\<close> from the loop of \<^verbatim>\<open>updatePrices\<close> only,
  with the theme of its catalog entry, which \<^verbatim>\<open>fetchFromRebrickable\<close> always sets to a
  non-empty name (\<^verbatim>\<open>THEME_NAMES[set.theme_id] || "LEGO"\<close>). For a deal with a non-empty theme,
  the tokens returned are those of the subscribers returned by the query for which
  \<open>watchedThemes\<close> is empty or contains the deal's theme, or \<open>watchedSets\<close> is empty or
  contains the deal's set number: the test of the loop is \<open>claimed_rule\<close>. A subscriber with
  both lists empty that the query returns is selected, for every deal.
\<close>

theorem eligible_rule:
  "(theme deal = Some th \<and> th \<noteq> [] \<longrightarrow>
      fst (getEligiblePushTokens deal w) =
        map token
          (filter
             (\<lambda>t. (watchedThemes t = [] \<or> JStr th \<in> set (watchedThemes t)) \<or>
                   (watchedSets t = [] \<or> JStr (setNumber deal) \<in> set (watchedSets t)))
             (push_token_query deal w)) \<and>
      (\<forall>t. (watchingTheme deal t \<or> watchingSet deal t) = claimed_rule deal t)) \<and>
   (\<forall>t \<in> set (push_token_query deal w).
      watchedThemes t = [] \<and> watchedSets t = [] \<longrightarrow>
      token t \<in> set (fst (getEligiblePushTokens deal w)))"
proof -
  have rule: "(watchingTheme deal t \<or> watchingSet deal t) =
      ((watchedThemes t = [] \<or> JStr th \<in> set (watchedThemes t)) \<or>
       (watchedSets t = [] \<or> JStr (setNumber deal) \<in> set (watchedSets t)))"
    if "theme deal = Some th \<and> th \<noteq> []" for t
    using that by (auto simp: watchingTheme_def watchingSet_def)
  have 1: "fst (getEligiblePushTokens deal w) =
        map token
          (filter
             (\<lambda>t. (watchedThemes t = [] \<or> JStr th \<in> set (watchedThemes t)) \<or>
                   (watchedSets t = [] \<or> JStr (setNumber deal) \<in> set (watchedSets t)))
             (push_token_query deal w))"
    if "theme deal = Some th \<and> th \<noteq> []"
    by (simp add: getEligiblePushTokens_def eligible_loop_filter rule[OF that])
  have 2: "(watchingTheme deal t \<or> watchingSet deal t) = claimed_rule deal t"
    if "theme deal = Some th \<and> th \<noteq> []" for t
    using that by (auto simp: watchingTheme_def watchingSet_def claimed_rule_def)
  have 3: "token t \<in> set (fst (getEligiblePushTokens deal w))"
    if "t \<in> set (push_token_query deal w)" "watchedThemes t = [] \<and> watchedSets t = []" for t
    using that by (auto simp: getEligiblePushTokens_def eligible_loop_filter watchingSet_def)
  from 1 2 3 show ?thesis by blast
qed

theorem eligible_rule_witness:
  "theme (deal_of (Some ''Star Wars'') ''75192'' 50) = Some ''Star Wars'' \<and>
   ''Star Wars'' \<noteq> [] \<and>
   push_token_query (deal_of (Some ''Star Wars'') ''75192'' 50)
     (registry [subscriber ''ExponentPushToken[a]'' 20 [] [],
                subscriber ''ExponentPushToken[b]'' 20 [JStr ''City''] [JStr ''10294''],
                subscriber ''ExponentPushToken[c]'' 60 [] []]) =
     [subscriber ''ExponentPushToken[a]'' 20 [] [],
      subscriber ''ExponentPushToken[b]'' 20 [JStr ''City''] [JStr ''10294'']] \<and>
   fst (getEligiblePushTokens (deal_of (Some ''Star Wars'') ''75192'' 50)
     (registry [subscriber ''ExponentPushToken[a]'' 20 [] [],
                subscriber ''ExponentPushToken[b]'' 20 [JStr ''City''] [JStr ''10294''],
                subscriber ''ExponentPushToken[c]'' 60 [] []])) = [''ExponentPushToken[a]''] \<and>
   claimed_rule (deal_of (Some ''Star Wars'') ''75192'' 50)
     (subscriber ''ExponentPushToken[a]'' 20 [] []) \<and>
   \<not> claimed_rule (deal_of (Some ''Star Wars'') ''75192'' 50)
     (subscriber ''ExponentPushToken[b]'' 20 [JStr ''City''] [JStr ''10294''])"
proof -
  let ?d = "deal_of (Some ''Star Wars'') ''75192'' 50"
  let ?w = "registry [subscriber ''ExponentPushToken[a]'' 20 [] [],
                subscriber ''ExponentPushToken[b]'' 20 [JStr ''City''] [JStr ''10294''],
                subscriber ''ExponentPushToken[c]'' 60 [] []]"
  have t: "theme ?d = Some ''Star Wars''" "''Star Wars'' \<noteq> []" by (simp_all add: deal_of_def)
  have q: "push_token_query ?d ?w =
     [subscriber ''ExponentPushToken[a]'' 20 [] [],
      subscriber ''ExponentPushToken[b]'' 20 [JStr ''City''] [JStr ''10294'']]"
    by (simp add: push_token_query_def registry_def empty_world_def subscriber_def deal_of_def)
  from eligible_rule[of ?d "''Star Wars''" ?w] t
  have "fst (getEligiblePushTokens ?d ?w) = [''ExponentPushToken[a]'']"
    unfolding q by (simp add: subscriber_def deal_of_def)
  moreover have "claimed_rule ?d (subscriber ''ExponentPushToken[a]'' 20 [] [])"
    "\<not> claimed_rule ?d (subscriber ''ExponentPushToken[b]'' 20 [JStr ''City''] [JStr ''10294''])"
    by (simp_all add: claimed_rule_def subscriber_def deal_of_def)
  ultimately show ?thesis using q t by simp
qed

text \<open>
  Claim C4, as stated, says that a subscriber with \<open>watchedThemes = ["Star Wars"]\<close> and
  \<open>watchedSets = []\<close> is not selected for a deal with theme City. The loop selects such a
  subscriber: with no watched sets, \<^verbatim>\<open>watchingSet\<close> is true.
\<close>

theorem star_wars_subscriber_counterexample:
  "subscriber ''ExponentPushToken[abc123]'' 20 [JStr ''Star Wars''] []
     \<in> set (push_token_query (deal_of (Some ''City'') ''60316'' 50)
          (registry [subscriber ''ExponentPushToken[abc123]'' 20 [JStr ''Star Wars''] []])) \<and>
   theme (deal_of (Some ''City'') ''60316'' 50) = Some ''City'' \<and>
   fst (getEligiblePushTokens (deal_of (Some ''City'') ''60316'' 50)
          (registry [subscriber ''ExponentPushToken[abc123]'' 20 [JStr ''Star Wars''] []])) =
     [''ExponentPushToken[abc123]'']"
  by (simp add: getEligiblePushTokens_def push_token_query_def registry_def empty_world_def
        subscriber_def deal_of_def watchingTheme_def watchingSet_def)

text \<open>
  Claim C4, amended. A subscriber with \<open>watchedThemes = ["Star Wars"]\<close> and
  \<open>watchedSets = []\<close> that the query returns is selected for every deal: for a deal with
  theme City as well as for a deal with theme Star Wars, whatever the set number.
\<close>

theorem star_wars_subscriber_always_selected:
  assumes "t \<in> set (push_token_query deal w)"
    and "watchedThemes t = [JStr ''Star Wars'']" and "watchedSets t = []"
  shows "token t \<in> set (fst (getEligiblePushTokens deal w))"
proof -
  have "watchingSet deal t" using assms(3) by (simp add: watchingSet_def)
  with assms(1) show ?thesis
    by (auto simp: getEligiblePushTokens_def eligible_loop_filter)
qed

theorem star_wars_subscriber_always_selected_witness:
  "subscriber ''ExponentPushToken[abc123]'' 20 [JStr ''Star Wars''] []
     \<in> set (push_token_query (deal_of (Some ''Star Wars'') ''75192'' 50)
          (registry [subscriber ''ExponentPushToken[abc123]'' 20 [JStr ''Star Wars''] []])) \<and>
   ''ExponentPushToken[abc123]''
     \<in> set (fst (getEligiblePushTokens (deal_of (Some ''Star Wars'') ''75192'' 50)
          (registry [subscriber ''ExponentPushToken[abc123]'' 20 [JStr ''Star Wars''] []]))) \<and>
   ''ExponentPushToken[abc123]''
     \<in> set (fst (getEligiblePushTokens (deal_of (Some ''City'') ''60316'' 45)
          (registry [subscriber ''ExponentPushToken[abc123]'' 20 [JStr ''Star Wars''] []])))"
proof -
  let ?s = "subscriber ''ExponentPushToken[abc123]'' 20 [JStr ''Star Wars''] []"
  have m: "?s \<in> set (push_token_query (deal_of th sn 50) (registry [?s]))"
    "?s \<in> set (push_token_query (deal_of th sn 45) (registry [?s]))" for th sn
    by (simp_all add: push_token_query_def registry_def empty_world_def subscriber_def deal_of_def)
  have l: "watchedThemes ?s = [JStr ''Star Wars'']" "watchedSets ?s = []"
    "token ?s = ''ExponentPushToken[abc123]''"
    by (simp_all add: subscriber_def)
  from star_wars_subscriber_always_selected[OF m(1) l(1,2), of "Some ''Star Wars''" "''75192''"]
    star_wars_subscriber_always_selected[OF m(2) l(1,2), of "Some ''City''" "''60316''"]
    m(1)[of "Some ''Star Wars''" "''75192''"]
  show ?thesis by (simp only: l(3))
qed

section \<open>The guard of the fan-out\<close>

lemma message_batches_concat: "concat (message_batches xs i) = drop i xs"
proof (induction xs i rule: message_batches.induct)
  case (1 messages i)
  show ?case
  proof (cases "i < length messages")
    case True
    have "take 100 (drop i messages) @ drop (i + 100) messages = drop i messages"
      by (metis add.commute append_take_drop_id drop_drop)
    with True 1 show ?thesis by (subst message_batches.simps) simp
  next
    case False
    then show ?thesis by (subst message_batches.simps) simp
  qed
qed

lemma message_batches_sizes:
  "b \<in> set (message_batches xs i) \<Longrightarrow> b \<noteq> [] \<and> length b \<le> 100"
proof (induction xs i rule: message_batches.induct)
  case (1 messages i)
  show ?case
  proof (cases "i < length messages")
    case True
    from 1(2) True
    have "b = take 100 (drop i messages) \<or> b \<in> set (message_batches messages (i + 100))"
      by (subst (asm) message_batches.simps) auto
    with True 1(1) show ?thesis by auto
  next
    case False
    with 1(2) show ?thesis by (subst (asm) message_batches.simps) simp
  qed
qed

lemma message_batches_nonempty: "xs \<noteq> [] \<Longrightarrow> message_batches xs 0 \<noteq> []"
  by (subst message_batches.simps) simp

text \<open>
  Claim C5. For a deal with \<open>percentOff < 40\<close> (39, say) \<^verbatim>\<open>notifyHotDeal\<close> leaves the state
  as it is: nothing is posted to the gateway and \<^verbatim>\<open>push_tokens\<close> is not queried. For a deal
  that passes the guard (\<open>percentOff = 40\<close> does) and has an eligible subscriber, the
  registry is queried once and the gateway gets at least one post: the messages, one per
  eligible token, in slices of at most 100.
\<close>

theorem notifyHotDeal_guard:
  "(js_lt (percentOff deal) 40 \<longrightarrow> notifyHotDeal deal w = w) \<and>
   (\<not> js_lt (percentOff deal) 40 \<and> fst (getEligiblePushTokens deal w) \<noteq> [] \<longrightarrow>
      expo_posts (notifyHotDeal deal w) =
        expo_posts w @
        message_batches
          (map (expo_message (hotDealPayload deal)) (fst (getEligiblePushTokens deal w))) 0 \<and>
      message_batches
          (map (expo_message (hotDealPayload deal)) (fst (getEligiblePushTokens deal w))) 0 \<noteq> [] \<and>
      concat (message_batches
          (map (expo_message (hotDealPayload deal)) (fst (getEligiblePushTokens deal w))) 0) =
        map (expo_message (hotDealPayload deal)) (fst (getEligiblePushTokens deal w)) \<and>
      (\<forall>b \<in> set (message_batches
          (map (expo_message (hotDealPayload deal)) (fst (getEligiblePushTokens deal w))) 0).
         b \<noteq> [] \<and> length b \<le> 100) \<and>
      push_token_queries (notifyHotDeal deal w) = push_token_queries w + 1)"
proof (intro conjI impI)
  show "notifyHotDeal deal w = w" if "js_lt (percentOff deal) 40"
    using that by (simp add: notifyHotDeal_def)
next
  assume a: "\<not> js_lt (percentOff deal) 40 \<and> fst (getEligiblePushTokens deal w) \<noteq> []"
  let ?ts = "fst (getEligiblePushTokens deal w)"
  let ?ms = "map (expo_message (hotDealPayload deal)) ?ts"
  from a have n: "notifyHotDeal deal w =
      sendExpoPushNotification ?ts (hotDealPayload deal) (snd (getEligiblePushTokens deal w))"
    by (simp add: notifyHotDeal_def split_beta)
  show "expo_posts (notifyHotDeal deal w) = expo_posts w @ message_batches ?ms 0"
    using a unfolding n by (simp add: sendExpoPushNotification_def getEligiblePushTokens_def)
  show "message_batches ?ms 0 \<noteq> []"
    using a by (intro message_batches_nonempty) simp
  show "concat (message_batches ?ms 0) = ?ms"
    by (simp add: message_batches_concat)
  show "\<forall>b \<in> set (message_batches ?ms 0). b \<noteq> [] \<and> length b \<le> 100"
    using message_batches_sizes by blast
  show "push_token_queries (notifyHotDeal deal w) = push_token_queries w + 1"
    using a unfolding n by (simp add: sendExpoPushNotification_def getEligiblePushTokens_def)
qed

theorem notifyHotDeal_guard_witness:
  "js_lt (percentOff (deal_of (Some ''City'') ''60316'' 39)) 40 \<and>
   notifyHotDeal (deal_of (Some ''City'') ''60316'' 39)
     (registry [subscriber ''ExponentPushToken[abc123]'' 20 [] []]) =
     registry [subscriber ''ExponentPushToken[abc123]'' 20 [] []] \<and>
   percentOff (deal_of (Some ''City'') ''60316'' 40) = Num 40 \<and>
   fst (getEligiblePushTokens (deal_of (Some ''City'') ''60316'' 40)
     (registry [subscriber ''ExponentPushToken[abc123]'' 20 [] []])) = [''ExponentPushToken[abc123]''] \<and>
   expo_posts (notifyHotDeal (deal_of (Some ''City'') ''60316'' 40)
     (registry [subscriber ''ExponentPushToken[abc123]'' 20 [] []])) =
     [[expo_message (hotDealPayload (deal_of (Some ''City'') ''60316'' 40))
         ''ExponentPushToken[abc123]'']] \<and>
   push_token_queries (notifyHotDeal (deal_of (Some ''City'') ''60316'' 40)
     (registry [subscriber ''ExponentPushToken[abc123]'' 20 [] []])) = 1"
proof -
  let ?w = "registry [subscriber ''ExponentPushToken[abc123]'' 20 [] []]"
  have p: "percentOff (deal_of th sn x) = Num x" for th sn x by (simp add: deal_of_def)
  have e: "fst (getEligiblePushTokens (deal_of (Some ''City'') ''60316'' 40) ?w) =
      [''ExponentPushToken[abc123]'']"
    by (simp add: getEligiblePushTokens_def push_token_query_def registry_def empty_world_def
          subscriber_def deal_of_def watchingTheme_def watchingSet_def)
  have w0: "expo_posts ?w = []" "push_token_queries ?w = 0"
    by (simp_all add: registry_def empty_world_def)
  from notifyHotDeal_guard[of "deal_of (Some ''City'') ''60316'' 39" ?w]
  have a: "notifyHotDeal (deal_of (Some ''City'') ''60316'' 39) ?w = ?w" by (simp add: p)
  from notifyHotDeal_guard[of "deal_of (Some ''City'') ''60316'' 40" ?w]
  have b: "expo_posts (notifyHotDeal (deal_of (Some ''City'') ''60316'' 40) ?w) =
     [[expo_message (hotDealPayload (deal_of (Some ''City'') ''60316'' 40))
         ''ExponentPushToken[abc123]'']]"
    "push_token_queries (notifyHotDeal (deal_of (Some ''City'') ''60316'' 40) ?w) = 1"
    by (simp_all add: p e w0 message_batches.simps[of "[x]" 0 for x]
          message_batches.simps[of "[x]" 100 for x])
  from a b e show ?thesis by (simp add: p)
qed

section \<open>Registration\<close>

lemma register_step:
  assumes "req_method req = ''POST''"
    and "fst (checkRateLimit (getClientIp req) now (rateLimitMap w))"
    and "req_body req = Some b" and "b \<noteq> JNull"
  shows "registerPushToken k req now w =
     (case valid_token_of (json_get b ''token'') of
        None \<Rightarrow>
          (safeErrorResponse (setCorsHeaders k req) 400 ''Invalid push token format'',
           w\<lparr>rateLimitMap := snd (checkRateLimit (getClientIp req) now (rateLimitMap w))\<rparr>)
      | Some tok \<Rightarrow>
          (\<lparr>status = 200, res_headers = setCorsHeaders k req,
            res_body = Success ''Push token registered successfully''\<rparr>,
           w\<lparr>rateLimitMap := snd (checkRateLimit (getClientIp req) now (rateLimitMap w)),
              push_tokens :=
                set_merge merge_PushToken tok
                  (register_tokenData tok (json_get b ''platform'') (json_get b ''preferences'') now)
                  (push_tokens w)\<rparr>))"
  using assms
  by (cases b) (simp_all add: registerPushToken_def Let_def split_beta split: option.splits)

lemma map_of_set_merge_PushToken:
  "map_of (set_merge merge_PushToken k d coll) k = Some d"
  by (simp add: set_merge_def update_conv' merge_PushToken_new split: option.split)

lemma filter_valid_sets:
  "j \<in> set (take n (filter isValidSetNumber_json xs)) \<Longrightarrow> \<exists>s. j = JStr s \<and> isValidSetNumber s"
proof -
  assume "j \<in> set (take n (filter isValidSetNumber_json xs))"
  then have "isValidSetNumber_json j" by (auto dest: in_set_takeD)
  then show ?thesis by (cases j) simp_all
qed

lemma bad_token: "\<not> isValidExpoPushToken ''bad-token''"
  by (simp add: isValidExpoPushToken_def)

lemma good_token: "isValidExpoPushToken ''ExponentPushToken[abc123]''"
  by (simp add: isValidExpoPushToken_def token_char_def)


lemma post_request_simps:
  "req_method (post_request b) = ''POST''" "req_body (post_request b) = Some b"
  "getClientIp (post_request b) = ''203.0.113.7''"
  by (simp_all add: post_request_def getClientIp_def header_def js_or_def truthy_def)

lemma admitted_fresh: "fst (checkRateLimit ip now [])"
  by (simp add: checkRateLimit_def)

lemma register_body_simps:
  "register_body tok prefs \<noteq> JNull"
  "json_get (register_body tok prefs) ''token'' = Some (JStr tok)"
  "json_get (register_body tok prefs) ''platform'' = Some (JStr ''android'')"
  "json_get (register_body tok prefs) ''preferences'' = prefs"
  by (simp_all add: register_body_def split: option.split)

lemma valid_sets_example:
  "filter isValidSetNumber_json [JStr ''75192'', JStr ''abc'', JNum 5, JStr ''10294-1''] =
     [JStr ''75192'', JStr ''10294-1'']"
  by (simp add: isValidSetNumber_def is_digit_def)

lemma bad_register_facts:
  "req_method bad_register = ''POST''"
  "fst (checkRateLimit (getClientIp bad_register) 1000 (rateLimitMap empty_world))"
  "req_body bad_register = Some (register_body ''bad-token'' None)"
  "valid_token_of (json_get (register_body ''bad-token'' None) ''token'') = None"
  by (simp_all add: bad_register_def post_request_simps empty_world_def admitted_fresh
        register_body_simps bad_token)

lemma good_register_facts:
  "req_method good_register = ''POST''"
  "fst (checkRateLimit (getClientIp good_register) 1000 (rateLimitMap empty_world))"
  "req_body good_register = Some (register_body ''ExponentPushToken[abc123]''
       (Some (JObj [(''minDiscountThreshold'', JNum 150),
                    (''watchedSets'',
                     JArr [JStr ''75192'', JStr ''abc'', JNum 5, JStr ''10294-1''])])))"
  "valid_token_of (json_get (register_body ''ExponentPushToken[abc123]'' p) ''token'') =
     Some ''ExponentPushToken[abc123]''"
  by (simp_all add: good_register_def post_request_simps empty_world_def admitted_fresh
        register_body_simps good_token)

lemma invalid_token_stores_nothing:
  "valid_token_of (case req_body req of None \<Rightarrow> None | Some b \<Rightarrow> json_get b ''token'') = None \<Longrightarrow>
   status (fst (registerPushToken k req now w)) \<noteq> 200 \<and>
   push_tokens (snd (registerPushToken k req now w)) = push_tokens w"
  by (cases "req_body req")
     (auto simp: registerPushToken_def Let_def split_beta safeErrorResponse_def
        split: option.splits json.splits)

text \<open>
  Claim C6. A registration request whose token is absent, is not a string or fails the
  pattern of an Expo push token (as \<^verbatim>\<open>bad-token\<close> does) is never answered 200 and leaves
  \<^verbatim>\<open>push_tokens\<close> as it is. Take a request that reaches the validation: a \<^verbatim>\<open>POST\<close> that the
  limiter admits, with a body. If its token is invalid, the answer is 400. If the token is valid (as \<^verbatim>\<open>ExponentPushToken[abc123]\<close>
  is), the answer is 200 and the document of the token is \<open>register_tokenData\<close>: its
  threshold lies in \<open>[0, 100]\<close> and is the requested number clamped (150 gives 100), its
  themes are the first 50 of the requested ones, and its sets are the first 100 of the
  requested ones that are valid set numbers.
\<close>

theorem register_validation:
  "(valid_token_of (case req_body req of None \<Rightarrow> None | Some b \<Rightarrow> json_get b ''token'') = None
      \<longrightarrow> status (fst (registerPushToken k req now w)) \<noteq> 200 \<and>
          push_tokens (snd (registerPushToken k req now w)) = push_tokens w) \<and>
   (req_method req = ''POST'' \<and>
    fst (checkRateLimit (getClientIp req) now (rateLimitMap w)) \<and>
    req_body req = Some b \<and> b \<noteq> JNull \<longrightarrow>
      (valid_token_of (json_get b ''token'') = None \<longrightarrow>
         status (fst (registerPushToken k req now w)) = 400 \<and>
         push_tokens (snd (registerPushToken k req now w)) = push_tokens w) \<and>
      (\<forall>tok. valid_token_of (json_get b ''token'') = Some tok \<longrightarrow>
         status (fst (registerPushToken k req now w)) = 200 \<and>
         map_of (push_tokens (snd (registerPushToken k req now w))) tok =
           Some (register_tokenData tok (json_get b ''platform'')
                   (json_get b ''preferences'') now))) \<and>
   0 \<le> minDiscountThreshold (register_tokenData tok pf prefs now) \<and>
   minDiscountThreshold (register_tokenData tok pf prefs now) \<le> 100 \<and>
   (\<forall>x. opt_chain prefs ''minDiscountThreshold'' = Some (JNum x) \<longrightarrow>
      minDiscountThreshold (register_tokenData tok pf prefs now) = min (max x 0) 100) \<and>
   length (watchedThemes (register_tokenData tok pf prefs now)) \<le> 50 \<and>
   (\<forall>xs. opt_chain prefs ''watchedThemes'' = Some (JArr xs) \<longrightarrow>
      watchedThemes (register_tokenData tok pf prefs now) = take 50 xs) \<and>
   length (watchedSets (register_tokenData tok pf prefs now)) \<le> 100 \<and>
   (\<forall>j \<in> set (watchedSets (register_tokenData tok pf prefs now)).
      \<exists>s. j = JStr s \<and> isValidSetNumber s) \<and>
   (\<forall>xs. opt_chain prefs ''watchedSets'' = Some (JArr xs) \<longrightarrow>
      watchedSets (register_tokenData tok pf prefs now) =
        take 100 (filter isValidSetNumber_json xs)) \<and>
   \<not> isValidExpoPushToken ''bad-token'' \<and>
   isValidExpoPushToken ''ExponentPushToken[abc123]''"
proof (intro conjI impI allI ballI)
  let ?r = "register_tokenData tok pf prefs now"
  show "status (fst (registerPushToken k req now w)) \<noteq> 200"
    if "valid_token_of (case req_body req of None \<Rightarrow> None | Some b \<Rightarrow> json_get b ''token'') = None"
    using invalid_token_stores_nothing[OF that] by simp
  show "push_tokens (snd (registerPushToken k req now w)) = push_tokens w"
    if "valid_token_of (case req_body req of None \<Rightarrow> None | Some b \<Rightarrow> json_get b ''token'') = None"
    using invalid_token_stores_nothing[OF that] by simp
  show "status (fst (registerPushToken k req now w)) = 400"
    if "req_method req = ''POST'' \<and>
        fst (checkRateLimit (getClientIp req) now (rateLimitMap w)) \<and>
        req_body req = Some b \<and> b \<noteq> JNull"
      and "valid_token_of (json_get b ''token'') = None"
    using that register_step[of req now w b k] by (simp add: safeErrorResponse_def)
  show "push_tokens (snd (registerPushToken k req now w)) = push_tokens w"
    if "req_method req = ''POST'' \<and>
        fst (checkRateLimit (getClientIp req) now (rateLimitMap w)) \<and>
        req_body req = Some b \<and> b \<noteq> JNull"
      and "valid_token_of (json_get b ''token'') = None"
    using that register_step[of req now w b k] by simp
  show "status (fst (registerPushToken k req now w)) = 200"
    if "req_method req = ''POST'' \<and>
        fst (checkRateLimit (getClientIp req) now (rateLimitMap w)) \<and>
        req_body req = Some b \<and> b \<noteq> JNull"
      and "valid_token_of (json_get b ''token'') = Some t" for t
    using that register_step[of req now w b k] by simp
  show "map_of (push_tokens (snd (registerPushToken k req now w))) t =
      Some (register_tokenData t (json_get b ''platform'') (json_get b ''preferences'') now)"
    if "req_method req = ''POST'' \<and>
        fst (checkRateLimit (getClientIp req) now (rateLimitMap w)) \<and>
        req_body req = Some b \<and> b \<noteq> JNull"
      and "valid_token_of (json_get b ''token'') = Some t" for t
    using that register_step[of req now w b k] by (simp add: map_of_set_merge_PushToken)
  show "0 \<le> minDiscountThreshold ?r" "minDiscountThreshold ?r \<le> 100"
    by (simp_all add: register_tokenData_def split: option.split json.split)
  show "minDiscountThreshold ?r = min (max x 0) 100"
    if "opt_chain prefs ''minDiscountThreshold'' = Some (JNum x)" for x
    using that by (simp add: register_tokenData_def)
  show "length (watchedThemes ?r) \<le> 50"
    by (simp add: register_tokenData_def split: option.split json.split)
  show "watchedThemes ?r = take 50 xs"
    if "opt_chain prefs ''watchedThemes'' = Some (JArr xs)" for xs
    using that by (simp add: register_tokenData_def)
  show "length (watchedSets ?r) \<le> 100"
    by (simp add: register_tokenData_def split: option.split json.split)
  show "\<exists>s. j = JStr s \<and> isValidSetNumber s" if "j \<in> set (watchedSets ?r)" for j
    using that filter_valid_sets
    by (auto simp: register_tokenData_def split: option.splits json.splits)
  show "watchedSets ?r = take 100 (filter isValidSetNumber_json xs)"
    if "opt_chain prefs ''watchedSets'' = Some (JArr xs)" for xs
    using that by (simp add: register_tokenData_def)
  show "\<not> isValidExpoPushToken ''bad-token''" by (rule bad_token)
  show "isValidExpoPushToken ''ExponentPushToken[abc123]''" by (rule good_token)
qed

theorem register_validation_witness:
  "req_method bad_register = ''POST'' \<and>
   fst (checkRateLimit (getClientIp bad_register) 1000 (rateLimitMap empty_world)) \<and>
   status (fst (registerPushToken [] bad_register 1000 empty_world)) = 400 \<and>
   push_tokens (snd (registerPushToken [] bad_register 1000 empty_world)) = [] \<and>
   req_method good_register = ''POST'' \<and>
   fst (checkRateLimit (getClientIp good_register) 1000 (rateLimitMap empty_world)) \<and>
   status (fst (registerPushToken [] good_register 1000 empty_world)) = 200 \<and>
   map_option (\<lambda>r. (minDiscountThreshold r, watchedSets r))
     (map_of (push_tokens (snd (registerPushToken [] good_register 1000 empty_world)))
        ''ExponentPushToken[abc123]'') =
     Some (100, [JStr ''75192'', JStr ''10294-1''])"
proof -
  let ?R1 = "registerPushToken [] bad_register 1000 empty_world"
  let ?R2 = "registerPushToken [] good_register 1000 empty_world"
  let ?p = "Some (JObj [(''minDiscountThreshold'', JNum 150),
                    (''watchedSets'',
                     JArr [JStr ''75192'', JStr ''abc'', JNum 5, JStr ''10294-1''])])"
  note t1 = register_validation[where req = bad_register and now = 1000 and w = empty_world
      and b = "register_body ''bad-token'' None" and k = "[]"]
  from t1 bad_register_facts register_body_simps(1)
  have a: "status (fst ?R1) = 400" "push_tokens (snd ?R1) = push_tokens empty_world"
    by blast+
  note t2 = register_validation[where req = good_register and now = 1000 and w = empty_world
      and b = "register_body ''ExponentPushToken[abc123]'' ?p" and k = "[]"
      and tok = "''ExponentPushToken[abc123]''" and pf = "Some (JStr ''android'')"
      and prefs = ?p]
  from t2 good_register_facts register_body_simps(1)
  have s: "status (fst ?R2) = 200"
    and r: "map_of (push_tokens (snd ?R2)) ''ExponentPushToken[abc123]'' =
      Some (register_tokenData ''ExponentPushToken[abc123]'' (Some (JStr ''android'')) ?p 1000)"
    unfolding register_body_simps by blast+
  from t2 have "minDiscountThreshold
      (register_tokenData ''ExponentPushToken[abc123]'' (Some (JStr ''android'')) ?p 1000) = 100"
    by simp
  moreover from t2 have "watchedSets
      (register_tokenData ''ExponentPushToken[abc123]'' (Some (JStr ''android'')) ?p 1000) =
      [JStr ''75192'', JStr ''10294-1'']"
    by (simp add: isValidSetNumber_def is_digit_def)
  ultimately show ?thesis
    using a s r bad_register_facts(1,2) good_register_facts(1,2)
    by (simp add: empty_world_def)
qed

text \<open>
  Claim C10. A token is registered, and a valid registration request for it arrives
  whose \<^verbatim>\<open>preferences\<close> are absent or lack the four fields. Whatever the document held,
  it now holds the defaults: notifications enabled, threshold 20, no watched themes and
  no watched sets. The write is a merge, but the data it merges has every field.
\<close>

theorem register_again_resets_preferences:
  assumes "req_method req = ''POST''"
    and "fst (checkRateLimit (getClientIp req) now (rateLimitMap w))"
    and "req_body req = Some b" and "b \<noteq> JNull"
    and "valid_token_of (json_get b ''token'') = Some tok"
    and "map_of (push_tokens w) tok = Some old"
    and "opt_chain (json_get b ''preferences'') ''notificationsEnabled'' = None"
    and "opt_chain (json_get b ''preferences'') ''minDiscountThreshold'' = None"
    and "opt_chain (json_get b ''preferences'') ''watchedThemes'' = None"
    and "opt_chain (json_get b ''preferences'') ''watchedSets'' = None"
  shows "map_of (push_tokens (snd (registerPushToken k req now w))) tok =
           Some \<lparr>token = tok, platform = platform_of (json_get b ''platform''),
                 notificationsEnabled = JBool True, minDiscountThreshold = 20,
                 watchedThemes = [], watchedSets = [], pt_lastUpdated = now\<rparr>"
  using register_step[OF assms(1-4), of k] assms(5-)
  by (simp add: map_of_set_merge_PushToken register_tokenData_def)

theorem register_again_resets_preferences_witness:
  "req_method plain_register = ''POST'' \<and>
   fst (checkRateLimit (getClientIp plain_register) 5000 (rateLimitMap registered_world)) \<and>
   map_of (push_tokens registered_world) ''ExponentPushToken[abc123]'' =
     Some \<lparr>token = ''ExponentPushToken[abc123]'', platform = ios,
                notificationsEnabled = JBool False, minDiscountThreshold = 55,
                watchedThemes = [JStr ''Star Wars''], watchedSets = [JStr ''75192''],
                pt_lastUpdated = 0\<rparr> \<and>
   map_of (push_tokens (snd (registerPushToken [] plain_register 5000 registered_world)))
     ''ExponentPushToken[abc123]'' =
     Some \<lparr>token = ''ExponentPushToken[abc123]'', platform = android,
           notificationsEnabled = JBool True, minDiscountThreshold = 20,
           watchedThemes = [], watchedSets = [], pt_lastUpdated = 5000\<rparr>"
proof -
  have f: "req_method plain_register = ''POST''"
    "fst (checkRateLimit (getClientIp plain_register) 5000 (rateLimitMap registered_world))"
    "req_body plain_register = Some (register_body ''ExponentPushToken[abc123]'' None)"
    by (simp_all add: plain_register_def post_request_simps registered_world_def registry_def
          empty_world_def admitted_fresh)
  have o: "map_of (push_tokens registered_world) ''ExponentPushToken[abc123]'' =
     Some \<lparr>token = ''ExponentPushToken[abc123]'', platform = ios,
                notificationsEnabled = JBool False, minDiscountThreshold = 55,
                watchedThemes = [JStr ''Star Wars''], watchedSets = [JStr ''75192''],
                pt_lastUpdated = 0\<rparr>"
    by (simp add: registered_world_def registry_def empty_world_def)
  have n: "opt_chain (json_get (register_body ''ExponentPushToken[abc123]'' None) ''preferences'') x = None"
    for x by (simp add: register_body_simps)
  from register_again_resets_preferences[OF f register_body_simps(1) good_register_facts(4) o n n n n, of "[]"]
  have "map_of (push_tokens (snd (registerPushToken [] plain_register 5000 registered_world)))
     ''ExponentPushToken[abc123]'' =
     Some \<lparr>token = ''ExponentPushToken[abc123]'', platform = android,
           notificationsEnabled = JBool True, minDiscountThreshold = 20,
           watchedThemes = [], watchedSets = [], pt_lastUpdated = 5000\<rparr>"
    by (simp add: register_body_simps)
  with f o show ?thesis by simp
qed


section \<open>The test endpoint\<close>

lemma sendTest_key_irrelevant:
  "status (fst (sendTestNotification k req now w)) =
     status (fst (sendTestNotification [] req now w)) \<and>
   res_body (fst (sendTestNotification k req now w)) =
     res_body (fst (sendTestNotification [] req now w)) \<and>
   snd (sendTestNotification k req now w) = snd (sendTestNotification [] req now w)"
  by (simp add: sendTestNotification_def Let_def split_beta safeErrorResponse_def
        split: option.split json.split)

text \<open>
  Claim C7 says that \<^verbatim>\<open>sendTestNotification\<close> answers 401 when a secret is configured and
  the request carries no matching key. The handler never calls \<^verbatim>\<open>validateApiKey\<close>: its
  status, its body and the state it leaves are the same under every secret. With the
  secret \<^verbatim>\<open>s3cret\<close> configured, a request without any key for a registered token is
  answered 200 and the test message is posted to the gateway, although \<^verbatim>\<open>validateApiKey\<close>
  is false for it. Without a configured secret \<^verbatim>\<open>validateApiKey\<close> is true for every
  request, as the claim says.
\<close>

theorem sendTestNotification_skips_api_key:
  "status (fst (sendTestNotification k req now w)) =
     status (fst (sendTestNotification [] req now w)) \<and>
   res_body (fst (sendTestNotification k req now w)) =
     res_body (fst (sendTestNotification [] req now w)) \<and>
   snd (sendTestNotification k req now w) = snd (sendTestNotification [] req now w) \<and>
   validateApiKey [] req \<and>
   \<not> validateApiKey ''s3cret'' test_request \<and>
   status (fst (sendTestNotification ''s3cret'' test_request 5000 registered_world)) = 200 \<and>
   res_body (fst (sendTestNotification ''s3cret'' test_request 5000 registered_world)) =
     Success ''Test notification sent'' \<and>
   expo_posts (snd (sendTestNotification ''s3cret'' test_request 5000 registered_world)) =
     [[expo_message testPayload ''ExponentPushToken[abc123]'']]"
  using sendTest_key_irrelevant[of k req now w]
  by (simp add: validateApiKey_def sendTestNotification_def test_request_def post_request_def
        registered_world_def registry_def empty_world_def header_def truthy_def js_or_def
        getClientIp_def checkRateLimit_def good_token sendExpoPushNotification_def
        message_batches.simps[of "[x]" 0 for x] message_batches.simps[of "[x]" 100 for x])

section \<open>The rate limiter\<close>

lemma run_in_window:
  "map_of rl ip = Some r \<Longrightarrow> \<forall>t \<in> set ts. t \<le> resetTime r \<Longrightarrow>
   fst (checkRateLimit_run ip ts rl) =
     replicate (min (length ts) (30 - count r)) True @
     replicate (length ts - (30 - count r)) False"
proof (induction ts arbitrary: rl r)
  case Nil
  then show ?case by simp
next
  case (Cons t ts)
  from Cons.prems have le: "\<not> resetTime r < t" and rest: "\<forall>t \<in> set ts. t \<le> resetTime r"
    by auto
  show ?case
  proof (cases "30 \<le> count r")
    case True
    with Cons.prems(1) le have "checkRateLimit ip t rl = (False, rl)"
      by (simp add: checkRateLimit_def RATE_LIMIT_MAX_REQUESTS_def)
    moreover from Cons.IH[OF Cons.prems(1) rest] True
    have "fst (checkRateLimit_run ip ts rl) = replicate (length ts) False" by simp
    ultimately show ?thesis using True by (simp add: split_beta)
  next
    case False
    let ?r = "r\<lparr>count := count r + 1\<rparr>"
    let ?rl = "AList.update ip ?r rl"
    from False Cons.prems(1) le have st: "checkRateLimit ip t rl = (True, ?rl)"
      by (simp add: checkRateLimit_def RATE_LIMIT_MAX_REQUESTS_def)
    have m: "map_of ?rl ip = Some ?r" by (simp add: update_conv')
    from rest have rest': "\<forall>t \<in> set ts. t \<le> resetTime ?r" by simp
    from Cons.IH[OF m rest']
    have "fst (checkRateLimit_run ip ts ?rl) =
        replicate (min (length ts) (30 - (count r + 1))) True @
        replicate (length ts - (30 - (count r + 1))) False" by simp
    moreover from False have "30 - count r = Suc (30 - (count r + 1))" by simp
    ultimately show ?thesis using st by (simp add: split_beta)
  qed
qed

lemma opening_request:
  "map_of rl ip = None \<or> (\<exists>r. map_of rl ip = Some r \<and> resetTime r < now) \<Longrightarrow>
   checkRateLimit ip now rl =
     (True, AList.update ip \<lparr>count = 1, resetTime = now + 60000\<rparr> rl)"
  by (auto simp: checkRateLimit_def RATE_LIMIT_WINDOW_MS_def)

lemma rejected_unchanged:
  "\<not> fst (checkRateLimit ip now rl) \<Longrightarrow> checkRateLimit ip now rl = (False, rl)"
  by (auto simp: checkRateLimit_def split: option.splits if_splits)


text \<open>
  Claim C8, as stated, says that at most 30 requests of one client are admitted within
  any 60 seconds. \<^verbatim>\<open>checkRateLimit\<close> keeps one counter and one reset time per client, and
  starts a new count with the first request after the reset time. A request at time 0,
  29 requests at 60000 and 30 requests at 60001 are all admitted: 59 of them within one
  millisecond.
\<close>

theorem rate_limit_sliding_counterexample:
  "fst (checkRateLimit_run ''203.0.113.7'' (0 # replicate 29 60000 @ replicate 30 60001) []) =
     replicate 60 True"
  by code_simp

text \<open>
  Claim C8, amended. The requests of a client are counted in fixed windows. A request
  of a client without a record, or after the reset time of its record, opens a window
  of 60 seconds and is admitted. Of the requests that follow with times up to the reset
  time, the first 29 are admitted and the others are rejected, so a window admits at
  most 30. A request that the limiter rejects is answered 429 by \<^verbatim>\<open>registerPushToken\<close>
  and \<^verbatim>\<open>sendTestNotification\<close>, and the state stays as it is.
\<close>

theorem rate_limit_fixed_window:
  "((map_of rl ip = None \<or> (\<exists>r. map_of rl ip = Some r \<and> resetTime r < t0)) \<and>
   (\<forall>t \<in> set ts. t \<le> t0 + 60000) \<longrightarrow>
     fst (checkRateLimit_run ip (t0 # ts) rl) =
       replicate (min (length ts + 1) 30) True @ replicate (length ts + 1 - 30) False \<and>
     length (filter (\<lambda>admitted. admitted) (fst (checkRateLimit_run ip (t0 # ts) rl))) \<le> 30) \<and>
   (req_method req = ''POST'' \<and> \<not> fst (checkRateLimit (getClientIp req) now (rateLimitMap w))
       \<longrightarrow> registerPushToken k req now w =
             (safeErrorResponse (setCorsHeaders k req) 429 ''Too many requests'', w) \<and>
           sendTestNotification k req now w =
             (safeErrorResponse (setCorsHeaders k req) 429 ''Too many requests'', w))"
proof (rule conjI)
  show "(map_of rl ip = None \<or> (\<exists>r. map_of rl ip = Some r \<and> resetTime r < t0)) \<and>
   (\<forall>t \<in> set ts. t \<le> t0 + 60000) \<longrightarrow>
     fst (checkRateLimit_run ip (t0 # ts) rl) =
       replicate (min (length ts + 1) 30) True @ replicate (length ts + 1 - 30) False \<and>
     length (filter (\<lambda>admitted. admitted) (fst (checkRateLimit_run ip (t0 # ts) rl))) \<le> 30"
  proof (intro impI)
    assume a: "(map_of rl ip = None \<or> (\<exists>r. map_of rl ip = Some r \<and> resetTime r < t0)) \<and>
      (\<forall>t \<in> set ts. t \<le> t0 + 60000)"
    let ?r = "\<lparr>count = 1, resetTime = t0 + 60000\<rparr>"
    let ?rl = "AList.update ip ?r rl"
    from a have st: "checkRateLimit ip t0 rl = (True, ?rl)" by (intro opening_request) simp
    have m: "map_of ?rl ip = Some ?r" by (simp add: update_conv')
    from a have w: "\<forall>t \<in> set ts. t \<le> resetTime ?r" by simp
    from run_in_window[OF m w]
    have "fst (checkRateLimit_run ip ts ?rl) =
        replicate (min (length ts) 29) True @ replicate (length ts - 29) False" by simp
    with st have run: "fst (checkRateLimit_run ip (t0 # ts) rl) =
        True # replicate (min (length ts) 29) True @ replicate (length ts - 29) False"
      by (simp add: split_beta)
    have "min (length ts + 1) 30 = Suc (min (length ts) 29)" by simp
    then have "True # replicate (min (length ts) 29) True =
        replicate (min (length ts + 1) 30) True"
      by (simp only: replicate_Suc)
    with run have eq: "fst (checkRateLimit_run ip (t0 # ts) rl) =
        replicate (min (length ts + 1) 30) True @ replicate (length ts + 1 - 30) False"
      by simp
    then show "fst (checkRateLimit_run ip (t0 # ts) rl) =
       replicate (min (length ts + 1) 30) True @ replicate (length ts + 1 - 30) False \<and>
     length (filter (\<lambda>admitted. admitted) (fst (checkRateLimit_run ip (t0 # ts) rl))) \<le> 30"
      by simp
  qed
  show "req_method req = ''POST'' \<and> \<not> fst (checkRateLimit (getClientIp req) now (rateLimitMap w))
       \<longrightarrow> registerPushToken k req now w =
             (safeErrorResponse (setCorsHeaders k req) 429 ''Too many requests'', w) \<and>
           sendTestNotification k req now w =
             (safeErrorResponse (setCorsHeaders k req) 429 ''Too many requests'', w)"
  proof (intro impI)
    assume a: "req_method req = ''POST'' \<and>
      \<not> fst (checkRateLimit (getClientIp req) now (rateLimitMap w))"
    then have "checkRateLimit (getClientIp req) now (rateLimitMap w) = (False, rateLimitMap w)"
      by (intro rejected_unchanged) simp
    with a show "registerPushToken k req now w =
             (safeErrorResponse (setCorsHeaders k req) 429 ''Too many requests'', w) \<and>
           sendTestNotification k req now w =
             (safeErrorResponse (setCorsHeaders k req) 429 ''Too many requests'', w)"
      by (simp add: registerPushToken_def sendTestNotification_def)
  qed
qed

theorem rate_limit_fixed_window_witness:
  "fst (checkRateLimit_run ''203.0.113.7'' (0 # replicate 34 1000) []) =
     replicate 30 True @ replicate 5 False \<and>
   req_method bad_register = ''POST'' \<and>
   \<not> fst (checkRateLimit (getClientIp bad_register) 1000 (rateLimitMap limited_world)) \<and>
   registerPushToken [] bad_register 1000 limited_world =
     (safeErrorResponse (setCorsHeaders [] bad_register) 429 ''Too many requests'', limited_world)"
proof -
  have h: "req_method bad_register = ''POST''"
    "\<not> fst (checkRateLimit (getClientIp bad_register) 1000 (rateLimitMap limited_world))"
    by (simp_all add: bad_register_def post_request_def getClientIp_def header_def js_or_def
          truthy_def limited_world_def empty_world_def checkRateLimit_def
          RATE_LIMIT_MAX_REQUESTS_def)
  from rate_limit_fixed_window[where rl = "[]" and ip = "''203.0.113.7''" and ?t0.0 = 0
      and ts = "replicate 34 1000" and req = bad_register and now = 1000
      and w = limited_world and k = "[]"] h
  show ?thesis by simp
qed

end
